theory Spec2Isabelle
  imports Main "HOL-Library.Word" "HOL-Library.Signed_Division"
begin

section \<open>The error taxonomy of common\_util.h\<close>

text \<open>
  The header declares \<^verbatim>\<open>cf_string_exception\<close> (a message) and three classes derived from
  it; each derived constructor passes a prefixed message to the base. An exception object
  is modelled by its dynamic class and its stored \<^verbatim>\<open>message_\<close>.
\<close>

datatype cf_class = String_exception | File_access_exception | Parse_error | Unexpected_situation

datatype cf_exception = Cf_exception (dynamic_class: cf_class) (message: string)

text \<open>
  \<^verbatim>\<open>what()\<close> returns \<^verbatim>\<open>message_.c_str()\<close>, a C string: whoever reads it sees the
  characters before the first NUL character and no more.
\<close>

definition c_str :: "string \<Rightarrow> string" where
  "c_str s = takeWhile (\<lambda>c. c \<noteq> CHR 0x00) s"

definition what :: "cf_exception \<Rightarrow> string" where
  "what e = c_str (message e)"

definition cf_string_exception :: "string \<Rightarrow> cf_exception" where
  "cf_string_exception msg = Cf_exception String_exception msg"

definition cf_file_access_exception :: "string \<Rightarrow> cf_exception" where
  "cf_file_access_exception error = Cf_exception File_access_exception (''File access failed: '' @ error)"

definition cf_parse_error :: "string \<Rightarrow> cf_exception" where
  "cf_parse_error expression = Cf_exception Parse_error (''Parse error in expression:'' @ expression)"

definition cf_unexpected_situation :: "string \<Rightarrow> cf_exception" where
  "cf_unexpected_situation error = Cf_exception Unexpected_situation (''Assert failed: '' @ error)"

section \<open>Calls into the external parsing engine\<close>

text \<open>
  tree-sitter is outside the repository. Every call the layer makes into it is recorded,
  in order, in a list of calls that the calling function takes and returns: \<open>'g\<close> is the
  grammar tag (\<^verbatim>\<open>Language\<close> of parser.h), \<open>'t\<close> the tree handle (\<^verbatim>\<open>TSTree*\<close>) and
  \<open>'n\<close> the node handle (\<^verbatim>\<open>TSNode\<close>).
\<close>

datatype ('g, 't, 'n) engine_call =
    Ts_parser_parse_string 'g string
  | Ts_tree_delete 't
  | Ts_node_string 'n

fun is_tree_delete :: "('g, 't, 'n) engine_call \<Rightarrow> bool" where
  "is_tree_delete (Ts_tree_delete _) = True"
| "is_tree_delete _ = False"

fun is_node_string :: "('g, 't, 'n) engine_call \<Rightarrow> bool" where
  "is_node_string (Ts_node_string _) = True"
| "is_node_string _ = False"

text \<open>
  \<^verbatim>\<open>ts_node_string(node)\<close>: the engine's node-to-text operation. What it returns is the
  engine's business and is the parameter \<open>node_text\<close>; \<open>None\<close> stands for a node the engine
  cannot read (a handle whose tree is gone), where the call has no defined result.
\<close>

definition ts_node_string ::
  "('n \<Rightarrow> string option) \<Rightarrow> 'n \<Rightarrow> ('g, 't, 'n) engine_call list
     \<Rightarrow> string option \<times> ('g, 't, 'n) engine_call list" where
  "ts_node_string node_text node calls = (node_text node, calls @ [Ts_node_string node])"

definition ts_tree_delete ::
  "'t \<Rightarrow> ('g, 't, 'n) engine_call list \<Rightarrow> ('g, 't, 'n) engine_call list" where
  "ts_tree_delete tree calls = calls @ [Ts_tree_delete tree]"

section \<open>The guard cf\_assert\<close>

text \<open>
  \<^verbatim>\<open>if (value == false) throw cf_unexpected_situation(message);\<close>
  The throw is the left injection.
\<close>

definition cf_assert :: "bool \<Rightarrow> string \<Rightarrow> cf_exception + unit" where
  "cf_assert val msg = (if val = False then Inl (cf_unexpected_situation msg) else Inr ())"

text \<open>
  The overload with a node: \<^verbatim>\<open>cf_assert(value, message + ts_node_string(node));\<close>
  The argument is evaluated before the inner call, so the engine is called first. The outer
  \<open>option\<close> is \<open>None\<close> where the engine call has no defined result.
\<close>

definition cf_assert_node ::
  "('n \<Rightarrow> string option) \<Rightarrow> bool \<Rightarrow> string \<Rightarrow> 'n \<Rightarrow> ('g, 't, 'n) engine_call list
     \<Rightarrow> (cf_exception + unit) option \<times> ('g, 't, 'n) engine_call list" where
  "cf_assert_node node_text val msg node calls =
     (case ts_node_string node_text node calls of
        (None, calls') \<Rightarrow> (None, calls')
      | (Some s, calls') \<Rightarrow> (Some (cf_assert val (msg @ s)), calls'))"

section \<open>The managed syntax tree\<close>

text \<open>
  \<^verbatim>\<open>TSTreeDeleter::operator()(TSTree* tree) { ts_tree_delete(tree); }\<close>
\<close>

definition TSTreeDeleter ::
  "'t \<Rightarrow> ('g, 't, 'n) engine_call list \<Rightarrow> ('g, 't, 'n) engine_call list" where
  "TSTreeDeleter tree calls = ts_tree_delete tree calls"

text \<open>
  \<^verbatim>\<open>using ManagedTSTree = std::unique_ptr<TSTree, TSTreeDeleter>;\<close>
  The holder is its stored pointer, \<open>None\<close> for the null pointer.
\<close>

type_synonym 't ManagedTSTree = "'t option"

text \<open>
  Giving up the tree. The alias fixes the behaviour through the C++ standard's
  \<^verbatim>\<open>std::unique_ptr\<close>: \<^verbatim>\<open>reset()\<close> sets the stored pointer to null and then, if the
  old pointer was not null, calls the deleter on it; the destructor makes the same call
  under the same test, and a holder that was moved from or released is empty when it is
  destroyed. The deleter is the \<^verbatim>\<open>TSTreeDeleter\<close> of the header.
\<close>

definition ManagedTSTree_destroy ::
  "'t ManagedTSTree \<Rightarrow> ('g, 't, 'n) engine_call list
     \<Rightarrow> 't ManagedTSTree \<times> ('g, 't, 'n) engine_call list" where
  "ManagedTSTree_destroy holder calls =
     (case holder of
        None \<Rightarrow> (None, calls)
      | Some tree \<Rightarrow> (None, TSTreeDeleter tree calls))"

text \<open>
  \<^verbatim>\<open>release()\<close> of \<^verbatim>\<open>std::unique_ptr\<close> hands the stored pointer to the caller and
  leaves the holder empty without calling the deleter.
\<close>

definition ManagedTSTree_release :: "'t ManagedTSTree \<Rightarrow> 't option \<times> 't ManagedTSTree" where
  "ManagedTSTree_release holder = (holder, None)"

section \<open>Parsing and collecting\<close>

text \<open>
  The header only declares the two \<^verbatim>\<open>GetTSTree\<close> templates and the two
  \<^verbatim>\<open>CollectCodeBlocksOfInterest\<close> templates; their bodies are in source files that are
  not at hand, and the engine's tree type is opaque to the header.
\<close>

text \<open>
  Modelled from the spec: the syntax tree that the engine produces, which the header only
  names (\<^verbatim>\<open>TSTree\<close>, \<^verbatim>\<open>TSNode\<close>). A node has a kind, the engine's error mark, the span of
  source bytes it covers and its children in order; a node handle is modelled by the
  subtree it denotes.
\<close>

datatype cst =
  Node (kind: string) (is_error: bool) (start_byte: nat) (end_byte: nat) (children: "cst list")

text \<open>
  Modelled from the spec: the traversal order of section 4.5 ("deterministic order, e.g.
  pre-order, depth-first"): a node, then the nodes of each child's subtree, left to right.
\<close>

primrec preorder :: "cst \<Rightarrow> cst list" where
  "preorder (Node k e s f cs) = Node k e s f cs # concat (map preorder cs)"

text \<open>
  Modelled from the spec: "the resulting tree contains any unrecoverable/error nodes"
  (section 4.4).
\<close>

definition has_error :: "cst \<Rightarrow> bool" where
  "has_error tree = list_ex is_error (preorder tree)"

text \<open>
  Modelled from the spec: the fragment that a Parse failure names, for the missing body of
  the string overload of \<^verbatim>\<open>GetTSTree\<close>. Section 8: the Parse error names the malformed
  fragment, and the tree holds an error node at the corresponding location. The fragment
  of a node is the source text its span of bytes covers; the offending fragment of a tree
  is that of its first error node in traversal order (the whole text if it has none).
\<close>

definition source_fragment :: "string \<Rightarrow> cst \<Rightarrow> string" where
  "source_fragment source_code n =
     take (end_byte n - start_byte n) (drop (start_byte n) source_code)"

definition offending_fragment :: "string \<Rightarrow> cst \<Rightarrow> string" where
  "offending_fragment source_code tree =
     (case find is_error (preorder tree) of
        None \<Rightarrow> source_code
      | Some n \<Rightarrow> source_fragment source_code n)"

text \<open>
  Modelled from the spec: the body of the string overload of \<^verbatim>\<open>GetTSTree\<close>, which is
  missing. Section 4.4: it invokes the engine configured for the grammar; if
  \<^verbatim>\<open>reportParseErrors\<close> is true and the resulting tree contains an error node, it fails
  with a Parse failure identifying the offending fragment; if false, it returns the tree
  without inspection. Section 6: the engine's parse operation returns a tree handle or a
  failure; section 4.1: a Parse failure is also raised when the engine cannot produce a
  usable tree, and then, with no tree to locate a fragment, it carries the text it was
  given. The engine's parse operation is the parameter \<open>parse\<close>, \<open>None\<close> its failure.
\<close>

definition GetTSTree_string ::
  "('g \<Rightarrow> string \<Rightarrow> cst option) \<Rightarrow> 'g \<Rightarrow> string \<Rightarrow> bool
     \<Rightarrow> ('g, cst, cst) engine_call list
     \<Rightarrow> (cf_exception + cst ManagedTSTree) \<times> ('g, cst, cst) engine_call list" where
  "GetTSTree_string parse g source_code report_parse_errors calls =
     (let calls' = calls @ [Ts_parser_parse_string g source_code]
      in case parse g source_code of
           None \<Rightarrow> (Inl (cf_parse_error source_code), calls')
         | Some tree \<Rightarrow>
             if report_parse_errors \<and> has_error tree
             then (Inl (cf_parse_error (offending_fragment source_code tree)), calls')
             else (Inr (Some tree), calls'))"

text \<open>
  The declaration in the header gives the flag a default:
  \<^verbatim>\<open>bool report_parse_errors = false\<close>. A call without the flag is this one.
\<close>

definition GetTSTree_string_default ::
  "('g \<Rightarrow> string \<Rightarrow> cst option) \<Rightarrow> 'g \<Rightarrow> string
     \<Rightarrow> ('g, cst, cst) engine_call list
     \<Rightarrow> (cf_exception + cst ManagedTSTree) \<times> ('g, cst, cst) engine_call list" where
  "GetTSTree_string_default parse g source_code calls =
     GetTSTree_string parse g source_code False calls"

text \<open>
  Modelled from the spec: the body of the file overload of \<^verbatim>\<open>GetTSTree\<close>, which is
  missing. Section 4.4: it reads the file fully into memory, fails with a File-access
  failure if the read fails, and otherwise delegates to the string-based entry point;
  section 8: a failed read performs no partial state mutation. Reading a file is the
  parameter \<open>read_file\<close>: the description of the I/O error, or the contents. The second
  parameter of the header's signature, the reference \<^verbatim>\<open>source_file_contents\<close>, is passed
  in and returned.
\<close>

definition GetTSTree_file ::
  "(string \<Rightarrow> string + string) \<Rightarrow> ('g \<Rightarrow> string \<Rightarrow> cst option)
     \<Rightarrow> 'g \<Rightarrow> string \<Rightarrow> string \<Rightarrow> ('g, cst, cst) engine_call list
     \<Rightarrow> (cf_exception + cst ManagedTSTree) \<times> string \<times> ('g, cst, cst) engine_call list" where
  "GetTSTree_file read_file parse g source_file source_file_contents calls =
     (case read_file source_file of
        Inl err \<Rightarrow> (Inl (cf_file_access_exception err), source_file_contents, calls)
      | Inr contents \<Rightarrow>
          (case GetTSTree_string_default parse g contents calls of
             (result, calls') \<Rightarrow> (result, contents, calls')))"

text \<open>
  Modelled from the spec: the body of the node overload of
  \<^verbatim>\<open>CollectCodeBlocksOfInterest\<close>, which is missing. Section 4.5: traverse the subtree
  rooted at the node and append every node matching the grammar's interest predicate to
  the output sequence, in traversal order; it appends only. The interest predicate of
  each grammar is the parameter \<open>interest\<close>.
\<close>

fun CollectCodeBlocksOfInterest_node ::
  "('g \<Rightarrow> cst \<Rightarrow> bool) \<Rightarrow> 'g \<Rightarrow> cst \<Rightarrow> cst list \<Rightarrow> cst list" where
  "CollectCodeBlocksOfInterest_node interest g (Node k e s f cs) code_blocks =
     fold (\<lambda>c acc. CollectCodeBlocksOfInterest_node interest g c acc) cs
       (if interest g (Node k e s f cs) then code_blocks @ [Node k e s f cs] else code_blocks)"

text \<open>
  Modelled from the spec: the body of the tree overload, which is missing. Section 4.5:
  given a managed tree, obtain its root and perform the same traversal; an absent root
  fails through the guard of section 4.1. The guard's message is the parameter
  \<open>no_root\<close>.
\<close>

definition CollectCodeBlocksOfInterest_tree ::
  "('g \<Rightarrow> cst \<Rightarrow> bool) \<Rightarrow> string \<Rightarrow> 'g \<Rightarrow> cst ManagedTSTree \<Rightarrow> cst list
     \<Rightarrow> cf_exception + cst list" where
  "CollectCodeBlocksOfInterest_tree interest no_root g tree code_blocks =
     (case tree of
        None \<Rightarrow> (case cf_assert False no_root of Inl e \<Rightarrow> Inl e | Inr _ \<Rightarrow> Inr code_blocks)
      | Some root \<Rightarrow> Inr (CollectCodeBlocksOfInterest_node interest g root code_blocks))"

section \<open>The timer\<close>

text \<open>
  \<^verbatim>\<open>struct timeval\<close>, \<^verbatim>\<open>time_t\<close> and \<^verbatim>\<open>suseconds_t\<close> come from
  \<^verbatim>\<open><sys/time.h>\<close>; they are taken as on 64-bit Linux, where both integer types are
  \<^verbatim>\<open>long\<close>: signed, 64 bits. Word arithmetic wraps around; C++ leaves signed overflow
  undefined, so the theorems about values assume that the difference is representable.
\<close>

type_synonym time_t = "64 word"
type_synonym suseconds_t = "64 word"

record timeval =
  tv_sec :: time_t
  tv_usec :: suseconds_t

text \<open>C++ \<^verbatim>\<open>/\<close> and \<^verbatim>\<open>%\<close> on signed operands: the quotient is truncated towards zero and
  the remainder has the sign of the dividend.\<close>

definition c_div :: "64 word \<Rightarrow> 64 word \<Rightarrow> 64 word" where
  "c_div a b = word_of_int (sint a sdiv sint b)"

definition c_mod :: "64 word \<Rightarrow> 64 word \<Rightarrow> 64 word" where
  "c_mod a b = word_of_int (sint a smod sint b)"

text \<open>The private fields \<^verbatim>\<open>start_tv_\<close> and \<^verbatim>\<open>end_tv_\<close>. The class has no constructor:
  a new timer holds arbitrary values in both.\<close>

record Timer =
  start_tv :: timeval
  end_tv :: timeval

text \<open>
  \<^verbatim>\<open>gettimeofday(&tv, NULL)\<close> is a system call: from the state of the world \<open>'w\<close> and the
  present contents of the buffer it yields the return code, the contents of the buffer
  afterwards and the next state of the world. It is a parameter of the two operations.
\<close>

type_synonym 'w gettimeofday = "'w \<Rightarrow> timeval \<Rightarrow> 32 word \<times> timeval \<times> 'w"

definition StartTimer :: "'w gettimeofday \<Rightarrow> Timer \<Rightarrow> 'w \<Rightarrow> 32 word \<times> Timer \<times> 'w" where
  "StartTimer gtod t w =
     (case gtod w (start_tv t) of (rc, tv, w') \<Rightarrow> (rc, t\<lparr>start_tv := tv\<rparr>, w'))"

definition StopTimer :: "'w gettimeofday \<Rightarrow> Timer \<Rightarrow> 'w \<Rightarrow> 32 word \<times> Timer \<times> 'w" where
  "StopTimer gtod t w =
     (case gtod w (end_tv t) of (rc, tv, w') \<Rightarrow> (rc, t\<lparr>end_tv := tv\<rparr>, w'))"

definition kMicroSecs :: suseconds_t where
  "kMicroSecs = 1000000"

definition timeval2microsec :: "timeval \<Rightarrow> 64 word" where
  "timeval2microsec tv = tv_sec tv * kMicroSecs + tv_usec tv"

definition TimerDiffToTimeval :: "Timer \<Rightarrow> timeval" where
  "TimerDiffToTimeval t =
     (let diff_microsec = timeval2microsec (end_tv t) - timeval2microsec (start_tv t)
      in \<lparr>tv_sec = c_div diff_microsec kMicroSecs,
          tv_usec = c_mod diff_microsec kMicroSecs\<rparr>)"

subsection \<open>The output string stream\<close>

text \<open>
  What \<^verbatim>\<open>TimerDiff\<close> uses of \<^verbatim>\<open>std::ostringstream\<close>: the text written so far, the field
  width and the fill character. A formatted insertion pads its text on the left with the
  fill character up to the field width (no adjustment flag is set) and resets the width
  to 0; the width is a minimum, a longer text is written whole.
\<close>

record ostringstream =
  os_str :: string
  os_width :: nat
  os_fill :: char

definition ostringstream_init :: ostringstream where
  "ostringstream_init = \<lparr>os_str = [], os_width = 0, os_fill = CHR '' ''\<rparr>"

definition put_formatted :: "string \<Rightarrow> ostringstream \<Rightarrow> ostringstream" where
  "put_formatted s os =
     os\<lparr>os_str := os_str os @ replicate (os_width os - length s) (os_fill os) @ s,
        os_width := 0\<rparr>"

definition digit_char :: "nat \<Rightarrow> char" where
  "digit_char d = char_of (48 + d)"

function dec_nat :: "nat \<Rightarrow> string" where
  "dec_nat n = (if n < 10 then [digit_char n] else dec_nat (n div 10) @ [digit_char (n mod 10)])"
  by pat_completeness auto
termination
  by (relation "measure id") auto

declare dec_nat.simps [simp del]

definition dec_int :: "int \<Rightarrow> string" where
  "dec_int i = (if i < 0 then CHR ''-'' # dec_nat (nat (- i)) else dec_nat (nat i))"

text \<open>\<^verbatim>\<open>operator<<\<close> for a \<^verbatim>\<open>long\<close>: the value in decimal, as a formatted insertion.\<close>

definition put_long :: "64 word \<Rightarrow> ostringstream \<Rightarrow> ostringstream" where
  "put_long v os = put_formatted (dec_int (sint v)) os"

definition TimerDiff :: "Timer \<Rightarrow> string" where
  "TimerDiff t =
     (let diff_tv = TimerDiffToTimeval t;
          ret_string = ostringstream_init;
          ret_string = put_formatted ''.'' (put_long (tv_sec diff_tv) ret_string);
          ret_string = ret_string\<lparr>os_width := 3\<rparr>;
          ret_string = ret_string\<lparr>os_fill := CHR ''0''\<rparr>;
          ret_string = put_long (c_div (tv_usec diff_tv) 1000) ret_string
      in os_str ret_string)"

subsection \<open>Exact values, for stating the theorems\<close>

text \<open>The microsecond count of a timestamp as a mathematical integer, and the range of a
  64-bit signed integer.\<close>

definition exact_microsec :: "timeval \<Rightarrow> int" where
  "exact_microsec tv = sint (tv_sec tv) * 1000000 + sint (tv_usec tv)"

definition representable :: "int \<Rightarrow> bool" where
  "representable x = (- (2 ^ 63) \<le> x \<and> x < 2 ^ 63)"

text \<open>Reading a decimal numeral back, to state that \<open>dec_nat\<close> writes the number.\<close>

definition digit_value :: "char \<Rightarrow> nat" where
  "digit_value c = of_char c - 48"

definition read_dec :: "string \<Rightarrow> nat" where
  "read_dec s = foldl (\<lambda>a c. 10 * a + digit_value c) 0 s"

section \<open>Properties of the guard\<close>

lemma c_str_NUL_free: "CHR 0x00 \<notin> set s \<Longrightarrow> c_str s = s"
  unfolding c_str_def by (rule takeWhile_eq_all_conv [THEN iffD2]) auto

text \<open>
  Claim C5. \<^verbatim>\<open>cf_assert\<close> raises exactly when the condition is false, and what it raises
  is the invariant-violation failure \<^verbatim>\<open>cf_unexpected_situation\<close> whose stored message is
  the class's prefix followed by the message. When the condition is true it returns
  normally; the guard takes its arguments by value and by constant reference and is a
  function of them alone, so there is nothing it could change. The overload with a node,
  for a node the engine can print, raises under the same condition, and the stored
  message of what it raises ends with the node's textual form. \<^verbatim>\<open>what()\<close> shows the
  stored message up to its first NUL character: all of it when the message has none.
\<close>

theorem cf_assert_raises_iff_false:
  "(cf_assert val msg = Inl (cf_unexpected_situation msg)) = (val = False)
   \<and> (\<exists>e. cf_assert val msg = Inl e) = (val = False)
   \<and> (cf_assert val msg = Inr ()) = (val = True)
   \<and> dynamic_class (cf_unexpected_situation msg) = Unexpected_situation
   \<and> message (cf_unexpected_situation msg) = ''Assert failed: '' @ msg
   \<and> what (cf_unexpected_situation msg) = ''Assert failed: '' @ c_str msg
   \<and> (CHR 0x00 \<notin> set msg \<longrightarrow> what (cf_unexpected_situation msg) = ''Assert failed: '' @ msg)
   \<and> (node_text node = Some s \<longrightarrow>
        fst (cf_assert_node node_text val msg node calls)
          = Some (if val then Inr () else Inl (cf_unexpected_situation (msg @ s)))
        \<and> message (cf_unexpected_situation (msg @ s)) = ''Assert failed: '' @ msg @ s
        \<and> (CHR 0x00 \<notin> set (msg @ s) \<longrightarrow>
             what (cf_unexpected_situation (msg @ s)) = ''Assert failed: '' @ msg @ s))"
proof -
  have w: "what (cf_unexpected_situation m) = ''Assert failed: '' @ c_str m" for m
    by (simp add: what_def cf_unexpected_situation_def c_str_def)
  have n: "CHR 0x00 \<notin> set m \<Longrightarrow> what (cf_unexpected_situation m) = ''Assert failed: '' @ m"
    for m
    using c_str_NUL_free [of m] by (simp add: w)
  show ?thesis
    using w [of msg] n [of msg] n [of "msg @ s"]
    by (auto simp: cf_assert_def cf_assert_node_def ts_node_string_def
        cf_unexpected_situation_def)
qed

text \<open>The witness raises with a node's text, passes with a true condition, and reads
  \<^verbatim>\<open>what()\<close> of a message that holds a NUL character.\<close>

theorem cf_assert_raises_iff_false_witness:
  "fst (cf_assert_node (\<lambda>n::nat. Some ''(identifier)'') False ''unexpected node: '' 0
          ([] :: (unit, unit, nat) engine_call list))
     = Some (Inl (Cf_exception Unexpected_situation
                    ''Assert failed: unexpected node: (identifier)''))
   \<and> what (cf_unexpected_situation ''unexpected node: (identifier)'')
     = ''Assert failed: unexpected node: (identifier)''
   \<and> fst (cf_assert_node (\<lambda>n::nat. Some ''(identifier)'') True ''unexpected node: '' 0
          ([] :: (unit, unit, nat) engine_call list))
     = Some (Inr ())
   \<and> what (cf_unexpected_situation [CHR ''x'', CHR 0x00, CHR ''y'']) = ''Assert failed: x''"
  using cf_assert_raises_iff_false
    [of False "''unexpected node: ''" "\<lambda>n::nat. Some ''(identifier)''" 0 "''(identifier)''"
        "[] :: (unit, unit, nat) engine_call list"]
    cf_assert_raises_iff_false
    [of True "''unexpected node: ''" "\<lambda>n::nat. Some ''(identifier)''" 0 "''(identifier)''"
        "[] :: (unit, unit, nat) engine_call list"]
    cf_assert_raises_iff_false
    [of False "[CHR ''x'', CHR 0x00, CHR ''y'']" "\<lambda>n::nat. Some ''(identifier)''" 0
        "''(identifier)''" "[] :: (unit, unit, nat) engine_call list"]
  by (simp add: cf_unexpected_situation_def c_str_def)

text \<open>
  Claim C9. The overload with a node is the string-only guard applied to the message
  followed by the node's textual form. The engine's \<^verbatim>\<open>ts_node_string\<close> is called once
  on the node whatever the condition is, also when it is true and nothing is raised; and
  for a node the engine cannot print the call has no defined result on that path either,
  so the overload needs a valid node even when the guard passes.
\<close>

theorem cf_assert_node_eq_cf_assert_concat:
  "snd (cf_assert_node node_text val msg node calls) = calls @ [Ts_node_string node]
   \<and> (node_text node = Some s \<longrightarrow>
        fst (cf_assert_node node_text val msg node calls) = Some (cf_assert val (msg @ s)))
   \<and> (node_text node = None \<longrightarrow>
        fst (cf_assert_node node_text val msg node calls) = None)"
  by (simp add: cf_assert_node_def ts_node_string_def split: option.splits)

text \<open>The witness takes the success path twice, with an engine that can print node 0
  only: on node 0 the guard passes after one engine call; on node 1 the engine is called
  all the same and there is no result.\<close>

theorem cf_assert_node_eq_cf_assert_concat_witness:
  "cf_assert_node (\<lambda>n::nat. if n = 0 then Some ''(identifier)'' else None) True ''message'' 0
      ([] :: (unit, unit, nat) engine_call list)
     = (Some (Inr ()), [Ts_node_string 0])
   \<and> cf_assert_node (\<lambda>n::nat. if n = 0 then Some ''(identifier)'' else None) True ''message'' 1
      ([] :: (unit, unit, nat) engine_call list)
     = (None, [Ts_node_string 1])"
  using cf_assert_node_eq_cf_assert_concat
    [of "\<lambda>n::nat. if n = 0 then Some ''(identifier)'' else None" True "''message''" 0
        "[] :: (unit, unit, nat) engine_call list" "''(identifier)''"]
    cf_assert_node_eq_cf_assert_concat
    [of "\<lambda>n::nat. if n = 0 then Some ''(identifier)'' else None" True "''message''" 1
        "[] :: (unit, unit, nat) engine_call list" "''(identifier)''"]
  by (simp add: cf_assert_def prod_eq_iff)

section \<open>Properties of the managed syntax tree\<close>

text \<open>
  Claim C1. Destroying a holder that holds a tree calls the engine's
  \<^verbatim>\<open>ts_tree_delete\<close> on that tree, once, and leaves the holder empty. Destroying an
  empty holder, or one whose tree was released, makes no call. The number of deletion
  calls grows by one for a full holder and by none for an empty one, and destroying the
  holder a second time changes nothing. Destruction has no failing outcome.
\<close>

theorem ManagedTSTree_destroy_once:
  "ManagedTSTree_destroy (Some tree) calls = (None, calls @ [Ts_tree_delete tree])
   \<and> ManagedTSTree_destroy None calls = (None, calls)
   \<and> length (filter is_tree_delete (snd (ManagedTSTree_destroy holder calls)))
       = length (filter is_tree_delete calls) + (case holder of None \<Rightarrow> 0 | Some _ \<Rightarrow> 1)
   \<and> (case ManagedTSTree_destroy holder calls of
        (holder', calls') \<Rightarrow> ManagedTSTree_destroy holder' calls' = (holder', calls'))
   \<and> ManagedTSTree_destroy (snd (ManagedTSTree_release holder)) calls = (None, calls)"
  by (simp add: ManagedTSTree_destroy_def ManagedTSTree_release_def TSTreeDeleter_def
      ts_tree_delete_def split: option.splits)

theorem ManagedTSTree_destroy_once_witness:
  "ManagedTSTree_destroy (Some (42::nat)) ([] :: (unit, nat, unit) engine_call list)
     = (None, [Ts_tree_delete 42])
   \<and> ManagedTSTree_destroy None [Ts_tree_delete (42::nat) :: (unit, nat, unit) engine_call]
     = (None, [Ts_tree_delete 42])"
  using ManagedTSTree_destroy_once
    [of "42::nat" "[] :: (unit, nat, unit) engine_call list" "None"]
    ManagedTSTree_destroy_once
    [of "42::nat" "[Ts_tree_delete (42::nat) :: (unit, nat, unit) engine_call]" "None"]
  by simp

section \<open>Properties of parsing and collecting\<close>

text \<open>
  Claim C2. When the file can be read, the file overload returns what the string overload
  (called without the flag) returns on the file's exact contents, and hands back those
  contents unchanged; where the engine makes a tree of the contents, that tree is the
  result. When the read fails, it fails with the File-access failure built from the
  error's description, the engine is not called and the caller's contents are left as
  they were.
\<close>

theorem GetTSTree_file_delegates:
  "(read_file source_file = Inr contents \<longrightarrow>
      GetTSTree_file read_file parse g source_file old_contents calls
        = (fst (GetTSTree_string_default parse g contents calls), contents,
           snd (GetTSTree_string_default parse g contents calls))
      \<and> (parse g contents = Some tree \<longrightarrow>
           fst (GetTSTree_file read_file parse g source_file old_contents calls)
             = Inr (Some tree)))
   \<and> (read_file source_file = Inl err \<longrightarrow>
      GetTSTree_file read_file parse g source_file old_contents calls
        = (Inl (cf_file_access_exception err), old_contents, calls)
      \<and> dynamic_class (cf_file_access_exception err) = File_access_exception
      \<and> message (cf_file_access_exception err) = ''File access failed: '' @ err)"
  by (simp add: GetTSTree_file_def GetTSTree_string_default_def GetTSTree_string_def Let_def
      cf_file_access_exception_def split: prod.splits)

text \<open>The witness reads one file that exists and one that does not.\<close>

theorem GetTSTree_file_delegates_witness:
  "GetTSTree_file (\<lambda>p. if p = ''a.c'' then Inr ''x;'' else Inl ''No such file or directory'')
      (\<lambda>g src. Some (Node ''translation_unit'' False 0 (length src) []))
      (0::nat) ''a.c'' ''old'' []
     = (Inr (Some (Node ''translation_unit'' False 0 2 [])), ''x;'',
        [Ts_parser_parse_string 0 ''x;''])
   \<and> GetTSTree_file (\<lambda>p. if p = ''a.c'' then Inr ''x;'' else Inl ''No such file or directory'')
      (\<lambda>g src. Some (Node ''translation_unit'' False 0 (length src) []))
      (0::nat) ''b.c'' ''old'' []
     = (Inl (Cf_exception File_access_exception
               ''File access failed: No such file or directory''), ''old'', [])"
  using GetTSTree_file_delegates
    [of "\<lambda>p. if p = ''a.c'' then Inr ''x;'' else Inl ''No such file or directory''"
        "''a.c''" "''x;''" "\<lambda>g src. Some (Node ''translation_unit'' False 0 (length src) [])"
        "0::nat" "''old''" "[]" "Node ''translation_unit'' False 0 2 []"
        "''No such file or directory''"]
    GetTSTree_file_delegates
    [of "\<lambda>p. if p = ''a.c'' then Inr ''x;'' else Inl ''No such file or directory''"
        "''b.c''" "''x;''" "\<lambda>g src. Some (Node ''translation_unit'' False 0 (length src) [])"
        "0::nat" "''old''" "[]" "Node ''translation_unit'' False 0 2 []"
        "''No such file or directory''"]
  by (simp add: GetTSTree_string_default_def GetTSTree_string_def cf_file_access_exception_def)

subsection \<open>Parse failures\<close>





subsection \<open>The collector\<close>

lemma fold_collect:
  assumes "\<And>c acc. c \<in> set cs \<Longrightarrow>
             CollectCodeBlocksOfInterest_node interest g c acc
               = acc @ filter (interest g) (preorder c)"
  shows "fold (\<lambda>c acc. CollectCodeBlocksOfInterest_node interest g c acc) cs acc
         = acc @ filter (interest g) (concat (map preorder cs))"
  using assms by (induction cs arbitrary: acc) simp_all

text \<open>The collector appends, to what the sequence held, the matching nodes of the
  subtree in pre-order.\<close>

lemma collect_node_appends:
  "CollectCodeBlocksOfInterest_node interest g root acc
     = acc @ filter (interest g) (preorder root)"
proof (induction root arbitrary: acc)
  case (Node k e s f cs)
  have "fold (\<lambda>c acc. CollectCodeBlocksOfInterest_node interest g c acc) cs acc'
          = acc' @ filter (interest g) (concat (map preorder cs))" for acc'
    by (rule fold_collect) (rule Node.IH)
  then show ?case by simp
qed

text \<open>
  Claim C4. For every tree and grammar the collector's output is one fixed sequence, the
  same at every run: what the sequence held before, followed by the nodes of the tree that
  satisfy the grammar's interest predicate, in pre-order. Started on an empty sequence its
  length is the number of matching nodes, and a second run on the first run's output
  appends the same nodes again. The tree overload does the same from the tree's root.
\<close>

theorem CollectCodeBlocksOfInterest_deterministic:
  "CollectCodeBlocksOfInterest_node interest g root code_blocks
     = code_blocks @ filter (interest g) (preorder root)
   \<and> length (CollectCodeBlocksOfInterest_node interest g root [])
       = length (filter (interest g) (preorder root))
   \<and> CollectCodeBlocksOfInterest_node interest g root
        (CollectCodeBlocksOfInterest_node interest g root [])
       = CollectCodeBlocksOfInterest_node interest g root []
         @ CollectCodeBlocksOfInterest_node interest g root []
   \<and> CollectCodeBlocksOfInterest_tree interest no_root g (Some root) code_blocks
       = Inr (code_blocks @ filter (interest g) (preorder root))"
  by (simp add: collect_node_appends CollectCodeBlocksOfInterest_tree_def)

text \<open>The witness collects the two \<open>if\<close> statements of a tree of five nodes.\<close>

theorem CollectCodeBlocksOfInterest_deterministic_witness:
  "CollectCodeBlocksOfInterest_node (\<lambda>g n. kind n = ''if_statement'') (0::nat)
      (Node ''translation_unit'' False 0 30
         [Node ''if_statement'' False 0 20
            [Node ''identifier'' False 4 5 [], Node ''if_statement'' False 8 20 []],
          Node ''return_statement'' False 21 30 []]) []
     = [Node ''if_statement'' False 0 20
          [Node ''identifier'' False 4 5 [], Node ''if_statement'' False 8 20 []],
        Node ''if_statement'' False 8 20 []]"
  using CollectCodeBlocksOfInterest_deterministic
    [of "\<lambda>g n. kind n = ''if_statement''" "0::nat"
        "Node ''translation_unit'' False 0 30
           [Node ''if_statement'' False 0 20
              [Node ''identifier'' False 4 5 [], Node ''if_statement'' False 8 20 []],
            Node ''return_statement'' False 21 30 []]" "[]"]
  by simp

section \<open>Properties of the timer\<close>

subsection \<open>Arithmetic on 64-bit signed values\<close>

lemma sint_kMicroSecs: "sint kMicroSecs = 1000000"
  by (simp add: kMicroSecs_def)

lemma sint_of_int_64: "representable x \<Longrightarrow> sint (word_of_int x :: 64 word) = x"
  unfolding representable_def
  by (simp add: sint_sbintrunc' signed_take_bit_int_eq_self)

lemma timeval2microsec_of_exact: "timeval2microsec tv = word_of_int (exact_microsec tv)"
  by (simp add: timeval2microsec_def exact_microsec_def kMicroSecs_def)

lemma sint_diff_microsec:
  assumes "representable (exact_microsec (end_tv t) - exact_microsec (start_tv t))"
  shows "sint (timeval2microsec (end_tv t) - timeval2microsec (start_tv t))
         = exact_microsec (end_tv t) - exact_microsec (start_tv t)"
proof -
  have "timeval2microsec (end_tv t) - timeval2microsec (start_tv t)
        = word_of_int (exact_microsec (end_tv t) - exact_microsec (start_tv t))"
    by (simp add: timeval2microsec_of_exact)
  then show ?thesis using assms by (simp only: sint_of_int_64)
qed

lemma sdiv_nonneg: "0 \<le> (d::int) \<Longrightarrow> d sdiv 1000000 = d div 1000000"
  by (simp add: signed_divide_int_def sgn_if)

lemma smod_nonneg: "0 \<le> (d::int) \<Longrightarrow> d smod 1000000 = d mod 1000000"
  by (simp add: signed_modulo_int_def sgn_if)

lemma sdiv_neg: "(d::int) < 0 \<Longrightarrow> d sdiv 1000000 = - ((- d) div 1000000)"
  by (simp add: signed_divide_int_def sgn_if)

lemma smod_neg: "(d::int) < 0 \<Longrightarrow> d smod 1000000 = - ((- d) mod 1000000)"
  by (simp add: signed_modulo_int_def sgn_if)

lemma representable_sdiv: "representable d \<Longrightarrow> representable (d sdiv 1000000)"
  unfolding representable_def
  by (cases "0 \<le> d") (simp_all add: sdiv_nonneg sdiv_neg, linarith+)

lemma representable_smod: "representable d \<Longrightarrow> representable (d smod 1000000)"
  unfolding representable_def
  by (cases "0 \<le> d") (simp_all add: smod_nonneg smod_neg, linarith+)

text \<open>Without overflow, the two fields of the result are the truncated quotient and the
  remainder of the exact difference.\<close>

lemma TimerDiffToTimeval_sint:
  assumes "representable (exact_microsec (end_tv t) - exact_microsec (start_tv t))"
  shows "sint (tv_sec (TimerDiffToTimeval t))
           = (exact_microsec (end_tv t) - exact_microsec (start_tv t)) sdiv 1000000"
    and "sint (tv_usec (TimerDiffToTimeval t))
           = (exact_microsec (end_tv t) - exact_microsec (start_tv t)) smod 1000000"
  using assms
  by (simp_all add: TimerDiffToTimeval_def Let_def c_div_def c_mod_def sint_diff_microsec
      sint_kMicroSecs sint_of_int_64 representable_sdiv representable_smod)

subsection \<open>The normalised difference\<close>

text \<open>
  Two timestamps as \<^verbatim>\<open>gettimeofday\<close> fills them in (seconds since the epoch, not
  negative and below \<open>9 * 10^12\<close>, some 285000 years; microseconds in \<open>[0, 1000000)\<close>)
  have a difference of microsecond counts that fits 64 bits.
\<close>

lemma captured_difference_representable:
  assumes "0 \<le> sint (tv_sec a)" "sint (tv_sec a) \<le> 9000000000000"
    and "0 \<le> sint (tv_usec a)" "sint (tv_usec a) < 1000000"
    and "0 \<le> sint (tv_sec b)" "sint (tv_sec b) \<le> 9000000000000"
    and "0 \<le> sint (tv_usec b)" "sint (tv_usec b) < 1000000"
  shows "representable (exact_microsec a - exact_microsec b)"
  using assms unfolding representable_def exact_microsec_def by simp

text \<open>
  Claim C6. For every pair of timestamps whose stop is not earlier than its start, counted
  in microseconds, \<^verbatim>\<open>TimerDiffToTimeval\<close> returns the difference as a normalised pair:
  seconds not negative, microseconds in \<open>[0, 1000000)\<close>, and together they are exactly
  the difference, also when the stop's microsecond field is the smaller one. The first
  hypothesis says that the difference fits the 64-bit \<^verbatim>\<open>suseconds_t\<close>, which holds for
  any two timestamps that \<^verbatim>\<open>gettimeofday\<close> captures.
\<close>

theorem TimerDiffToTimeval_normalized:
  assumes "representable (exact_microsec (end_tv t) - exact_microsec (start_tv t))"
    and "exact_microsec (start_tv t) \<le> exact_microsec (end_tv t)"
  shows "0 \<le> sint (tv_sec (TimerDiffToTimeval t))
       \<and> 0 \<le> sint (tv_usec (TimerDiffToTimeval t))
       \<and> sint (tv_usec (TimerDiffToTimeval t)) < 1000000
       \<and> exact_microsec (TimerDiffToTimeval t)
           = exact_microsec (end_tv t) - exact_microsec (start_tv t)"
proof -
  let ?d = "exact_microsec (end_tv t) - exact_microsec (start_tv t)"
  have d: "0 \<le> ?d" using assms(2) by simp
  have s: "sint (tv_sec (TimerDiffToTimeval t)) = ?d div 1000000"
    using TimerDiffToTimeval_sint(1) [OF assms(1)] d by (simp add: sdiv_nonneg)
  have u: "sint (tv_usec (TimerDiffToTimeval t)) = ?d mod 1000000"
    using TimerDiffToTimeval_sint(2) [OF assms(1)] d by (simp add: smod_nonneg)
  have "0 \<le> ?d div 1000000" using d by simp
  moreover have "0 \<le> ?d mod 1000000" "?d mod 1000000 < 1000000" by simp_all
  moreover have "exact_microsec (TimerDiffToTimeval t) = ?d"
    unfolding exact_microsec_def [of "TimerDiffToTimeval t"] s u by simp
  ultimately show ?thesis using s u by simp
qed

text \<open>The witness borrows: the stop's microsecond field, 100000, is smaller than the
  start's, 900000; the difference of 1200000 microseconds comes out as (1, 200000).\<close>

theorem TimerDiffToTimeval_normalized_witness:
  "representable
     (exact_microsec (end_tv \<lparr>start_tv = \<lparr>tv_sec = 10, tv_usec = 900000\<rparr>,
                              end_tv = \<lparr>tv_sec = 12, tv_usec = 100000\<rparr>\<rparr>)
      - exact_microsec (start_tv \<lparr>start_tv = \<lparr>tv_sec = 10, tv_usec = 900000\<rparr>,
                                  end_tv = \<lparr>tv_sec = 12, tv_usec = 100000\<rparr>\<rparr>))
   \<and> TimerDiffToTimeval \<lparr>start_tv = \<lparr>tv_sec = 10, tv_usec = 900000\<rparr>,
                          end_tv = \<lparr>tv_sec = 12, tv_usec = 100000\<rparr>\<rparr>
       = \<lparr>tv_sec = 1, tv_usec = 200000\<rparr>
   \<and> exact_microsec (TimerDiffToTimeval \<lparr>start_tv = \<lparr>tv_sec = 10, tv_usec = 900000\<rparr>,
                                         end_tv = \<lparr>tv_sec = 12, tv_usec = 100000\<rparr>\<rparr>)
       = 1200000"
proof -
  define t where "t = \<lparr>start_tv = \<lparr>tv_sec = 10, tv_usec = 900000\<rparr>,
                        end_tv = \<lparr>tv_sec = 12, tv_usec = 100000\<rparr>\<rparr>"
  have h1: "representable (exact_microsec (end_tv t) - exact_microsec (start_tv t))"
    by (simp add: t_def exact_microsec_def representable_def)
  have h2: "exact_microsec (start_tv t) \<le> exact_microsec (end_tv t)"
    by (simp add: t_def exact_microsec_def)
  have v: "exact_microsec (end_tv t) - exact_microsec (start_tv t) = 1200000"
    by (simp add: t_def exact_microsec_def)
  have c: "TimerDiffToTimeval t = \<lparr>tv_sec = 1, tv_usec = 200000\<rparr>"
    unfolding t_def by code_simp
  from TimerDiffToTimeval_normalized [OF h1 h2]
  have "exact_microsec (TimerDiffToTimeval t) = 1200000"
    unfolding v by simp
  with h1 c show ?thesis unfolding t_def by simp
qed

subsection \<open>A stop earlier than the start\<close>

text \<open>
  Claim C8. \<^verbatim>\<open>TimerDiffToTimeval\<close> checks nothing: it has no failure to raise and returns
  a pair for every content of the two fields. Whenever the stop is earlier than the start
  (and the difference fits 64 bits) no component of the result is positive and at least
  one is negative: the result is the negative difference itself, split by a division that
  truncates towards zero.
\<close>

theorem TimerDiffToTimeval_negative:
  assumes "representable (exact_microsec (end_tv t) - exact_microsec (start_tv t))"
    and "exact_microsec (end_tv t) < exact_microsec (start_tv t)"
  shows "sint (tv_sec (TimerDiffToTimeval t)) \<le> 0
       \<and> sint (tv_usec (TimerDiffToTimeval t)) \<le> 0
       \<and> - 1000000 < sint (tv_usec (TimerDiffToTimeval t))
       \<and> (sint (tv_sec (TimerDiffToTimeval t)) < 0 \<or> sint (tv_usec (TimerDiffToTimeval t)) < 0)
       \<and> exact_microsec (TimerDiffToTimeval t)
           = exact_microsec (end_tv t) - exact_microsec (start_tv t)"
proof -
  let ?d = "exact_microsec (end_tv t) - exact_microsec (start_tv t)"
  have d: "?d < 0" using assms(2) by simp
  have s: "sint (tv_sec (TimerDiffToTimeval t)) = - ((- ?d) div 1000000)"
    using TimerDiffToTimeval_sint(1) [OF assms(1)] d by (simp add: sdiv_neg)
  have u: "sint (tv_usec (TimerDiffToTimeval t)) = - ((- ?d) mod 1000000)"
    using TimerDiffToTimeval_sint(2) [OF assms(1)] d by (simp add: smod_neg)
  have dm: "(- ?d) div 1000000 * 1000000 + (- ?d) mod 1000000 = - ?d"
    by (rule div_mult_mod_eq)
  have e: "exact_microsec (TimerDiffToTimeval t) = ?d"
    unfolding exact_microsec_def [of "TimerDiffToTimeval t"] s u using dm by linarith
  have "0 \<le> (- ?d) div 1000000" using d by simp
  moreover have "0 \<le> (- ?d) mod 1000000" "(- ?d) mod 1000000 < 1000000" by simp_all
  moreover have "(- ?d) div 1000000 > 0 \<or> (- ?d) mod 1000000 > 0"
    using d dm calculation by linarith
  ultimately show ?thesis using s u e by linarith
qed

text \<open>The witness: started at (5, 0) and stopped at (3, 500000), the timer returns
  (-1, -500000), both components negative.\<close>

theorem TimerDiffToTimeval_negative_witness:
  "exact_microsec (end_tv \<lparr>start_tv = \<lparr>tv_sec = 5, tv_usec = 0\<rparr>,
                            end_tv = \<lparr>tv_sec = 3, tv_usec = 500000\<rparr>\<rparr>)
     < exact_microsec (start_tv \<lparr>start_tv = \<lparr>tv_sec = 5, tv_usec = 0\<rparr>,
                                 end_tv = \<lparr>tv_sec = 3, tv_usec = 500000\<rparr>\<rparr>)
   \<and> sint (tv_sec (TimerDiffToTimeval \<lparr>start_tv = \<lparr>tv_sec = 5, tv_usec = 0\<rparr>,
                                        end_tv = \<lparr>tv_sec = 3, tv_usec = 500000\<rparr>\<rparr>)) = - 1
   \<and> sint (tv_usec (TimerDiffToTimeval \<lparr>start_tv = \<lparr>tv_sec = 5, tv_usec = 0\<rparr>,
                                         end_tv = \<lparr>tv_sec = 3, tv_usec = 500000\<rparr>\<rparr>)) = - 500000
   \<and> exact_microsec (TimerDiffToTimeval \<lparr>start_tv = \<lparr>tv_sec = 5, tv_usec = 0\<rparr>,
                                         end_tv = \<lparr>tv_sec = 3, tv_usec = 500000\<rparr>\<rparr>)
       = - 1500000"
proof -
  define t where "t = \<lparr>start_tv = \<lparr>tv_sec = 5, tv_usec = 0\<rparr>,
                        end_tv = \<lparr>tv_sec = 3, tv_usec = 500000\<rparr>\<rparr>"
  have h1: "representable (exact_microsec (end_tv t) - exact_microsec (start_tv t))"
    by (simp add: t_def exact_microsec_def representable_def)
  have h2: "exact_microsec (end_tv t) < exact_microsec (start_tv t)"
    by (simp add: t_def exact_microsec_def)
  have v: "exact_microsec (end_tv t) - exact_microsec (start_tv t) = - 1500000"
    by (simp add: t_def exact_microsec_def)
  have c1: "sint (tv_sec (TimerDiffToTimeval t)) = - 1"
    unfolding t_def by code_simp
  have c2: "sint (tv_usec (TimerDiffToTimeval t)) = - 500000"
    unfolding t_def by code_simp
  from TimerDiffToTimeval_negative [OF h1 h2]
  have "exact_microsec (TimerDiffToTimeval t) = - 1500000"
    unfolding v by simp
  with h2 c1 c2 show ?thesis unfolding t_def by simp
qed

subsection \<open>The formatted difference\<close>

lemma digit_char_0: "digit_char 0 = CHR ''0''"
  by code_simp

lemma dec_nat_small: "n < 10 \<Longrightarrow> dec_nat n = [digit_char n]"
  by (simp add: dec_nat.simps)

lemma dec_nat_big: "10 \<le> n \<Longrightarrow> dec_nat n = dec_nat (n div 10) @ [digit_char (n mod 10)]"
  by (subst dec_nat.simps) simp

lemma digit_value_digit_char: "d < 10 \<Longrightarrow> digit_value (digit_char d) = d"
  by (simp add: digit_value_def digit_char_def)

text \<open>\<open>dec_nat\<close> writes the decimal numeral of its argument.\<close>

lemma read_dec_dec_nat: "read_dec (dec_nat n) = n"
proof (induction n rule: dec_nat.induct)
  case (1 n)
  show ?case
  proof (cases "n < 10")
    case True
    then show ?thesis by (simp add: dec_nat_small read_dec_def digit_value_digit_char)
  next
    case False
    then have "read_dec (dec_nat (n div 10)) = n div 10" using "1.IH" by simp
    with False show ?thesis
      by (simp add: dec_nat_big read_dec_def digit_value_digit_char)
  qed
qed

text \<open>A number below 1000, written with field width 3 and fill character 0, is its three
  decimal digits.\<close>

lemma pad3:
  assumes "n < 1000"
  shows "replicate (3 - length (dec_nat n)) CHR ''0'' @ dec_nat n
         = [digit_char (n div 100), digit_char (n div 10 mod 10), digit_char (n mod 10)]"
proof -
  consider "n < 10" | "10 \<le> n" "n < 100" | "100 \<le> n" by linarith
  then show ?thesis
  proof cases
    case 1
    then show ?thesis
      by (simp add: dec_nat_small digit_char_0 numeral_3_eq_3)
  next
    case 2
    then have "n div 10 < 10" by simp
    with 2 show ?thesis
      by (simp add: dec_nat_big dec_nat_small digit_char_0)
  next
    case 3
    then have a: "10 \<le> n" and b: "10 \<le> n div 10" by simp_all
    have c: "n div 10 div 10 < 10" using assms by simp
    have d: "n div 10 div 10 = n div 100" by (simp add: div_mult2_eq)
    show ?thesis
      using c by (simp add: dec_nat_big [OF a] dec_nat_big [OF b] dec_nat_small d)
  qed
qed

lemma c_div_1000:
  assumes "0 \<le> sint u" "sint u < 1000000"
  shows "sint (c_div u 1000) = sint u div 1000"
proof -
  have "sint u sdiv 1000 = sint u div 1000"
    using assms(1) by (simp add: signed_divide_int_def sgn_if)
  moreover have "representable (sint u div 1000)"
    using assms unfolding representable_def by simp arith
  ultimately show ?thesis
    by (simp add: c_div_def sint_of_int_64)
qed

text \<open>
  Claim C7. For every timer whose difference is a normalised, non-negative interval
  (seconds not negative, microseconds in \<open>[0, 1000000)\<close>), \<^verbatim>\<open>TimerDiff\<close> writes the
  seconds in decimal, a dot, and then exactly three digits: the hundreds, tens and units
  of the microseconds divided by 1000, the division dropping the remainder.
\<close>

theorem TimerDiff_format:
  assumes "0 \<le> sint (tv_sec (TimerDiffToTimeval t))"
    and "0 \<le> sint (tv_usec (TimerDiffToTimeval t))"
    and "sint (tv_usec (TimerDiffToTimeval t)) < 1000000"
  shows "TimerDiff t =
           dec_nat (nat (sint (tv_sec (TimerDiffToTimeval t)))) @ ''.'' @
           [digit_char (nat (sint (tv_usec (TimerDiffToTimeval t))) div 1000 div 100),
            digit_char (nat (sint (tv_usec (TimerDiffToTimeval t))) div 1000 div 10 mod 10),
            digit_char (nat (sint (tv_usec (TimerDiffToTimeval t))) div 1000 mod 10)]"
proof -
  define d where "d = TimerDiffToTimeval t"
  define ms where "ms = nat (sint (tv_usec d)) div 1000"
  have ms: "sint (c_div (tv_usec d) 1000) = int ms"
    using c_div_1000 [of "tv_usec d"] assms(2,3) by (simp add: zdiv_int d_def ms_def)
  have lt: "ms < 1000" using assms(2,3) unfolding ms_def d_def by arith
  have frac: "dec_int (sint (c_div (tv_usec d) 1000)) = dec_nat ms"
    unfolding ms by (simp add: dec_int_def)
  have sec: "dec_int (sint (tv_sec d)) = dec_nat (nat (sint (tv_sec d)))"
    using assms(1) by (simp add: dec_int_def d_def)
  have "TimerDiff t = os_str (put_long (c_div (tv_usec d) 1000)
           ((put_formatted ''.'' (put_long (tv_sec d) ostringstream_init))
              \<lparr>os_width := 3, os_fill := CHR ''0''\<rparr>))"
    by (simp add: TimerDiff_def Let_def d_def)
  also have "\<dots> = dec_nat (nat (sint (tv_sec d))) @ ''.'' @
          (replicate (3 - length (dec_nat ms)) CHR ''0'' @ dec_nat ms)"
    by (simp add: put_long_def put_formatted_def ostringstream_init_def frac sec)
  finally show ?thesis unfolding pad3 [OF lt] unfolding ms_def d_def .
qed

text \<open>The witness is an interval of exactly 1500000 microseconds, from (10, 900000) to
  (12, 400000): it is written as 1.500.\<close>

theorem TimerDiff_format_witness:
  "exact_microsec (TimerDiffToTimeval
      \<lparr>start_tv = \<lparr>tv_sec = 10, tv_usec = 900000\<rparr>,
         end_tv = \<lparr>tv_sec = 12, tv_usec = 400000\<rparr>\<rparr>) = 1500000
   \<and> TimerDiff \<lparr>start_tv = \<lparr>tv_sec = 10, tv_usec = 900000\<rparr>,
                 end_tv = \<lparr>tv_sec = 12, tv_usec = 400000\<rparr>\<rparr> = ''1.500''"
proof -
  define t where "t = \<lparr>start_tv = \<lparr>tv_sec = 10, tv_usec = 900000\<rparr>,
                        end_tv = \<lparr>tv_sec = 12, tv_usec = 400000\<rparr>\<rparr>"
  have d: "TimerDiffToTimeval t = \<lparr>tv_sec = 1, tv_usec = 500000\<rparr>"
    unfolding t_def by code_simp
  have h1: "0 \<le> sint (tv_sec (TimerDiffToTimeval t))" unfolding d by simp
  have h2: "0 \<le> sint (tv_usec (TimerDiffToTimeval t))" unfolding d by simp
  have h3: "sint (tv_usec (TimerDiffToTimeval t)) < 1000000" unfolding d by simp
  have e: "exact_microsec (TimerDiffToTimeval t) = 1500000"
    unfolding d by (simp add: exact_microsec_def)
  have n1: "nat (sint (tv_sec (TimerDiffToTimeval t))) = 1" unfolding d by simp
  have n2: "nat (sint (tv_usec (TimerDiffToTimeval t))) div 1000 = 500" unfolding d by simp
  have r: "dec_nat 1 @ ''.'' @
           [digit_char (500 div 100), digit_char (500 div 10 mod 10), digit_char (500 mod 10)]
           = ''1.500''"
    by code_simp
  have "TimerDiff t = ''1.500''"
    using TimerDiff_format [OF h1 h2 h3] unfolding n1 n2 r .
  with e show ?thesis unfolding t_def by simp
qed

subsection \<open>Starting and stopping\<close>

text \<open>
  Claim C10. \<^verbatim>\<open>StartTimer\<close> stores what the clock read wrote into the start timestamp
  and leaves the stop timestamp as it was; \<^verbatim>\<open>StopTimer\<close> does the same with the two
  exchanged; each returns the return code of the system call as it is. So a timer that
  is started again after a stop still holds the stop time it captured.
\<close>

theorem StartTimer_StopTimer_frame:
  "end_tv (fst (snd (StartTimer gtod t w))) = end_tv t
   \<and> start_tv (fst (snd (StartTimer gtod t w))) = fst (snd (gtod w (start_tv t)))
   \<and> fst (StartTimer gtod t w) = fst (gtod w (start_tv t))
   \<and> start_tv (fst (snd (StopTimer gtod t w))) = start_tv t
   \<and> end_tv (fst (snd (StopTimer gtod t w))) = fst (snd (gtod w (end_tv t)))
   \<and> fst (StopTimer gtod t w) = fst (gtod w (end_tv t))
   \<and> (case StopTimer gtod t w of
        (rc, t', w') \<Rightarrow> end_tv (fst (snd (StartTimer gtod t' w'))) = end_tv t')"
  by (simp add: StartTimer_def StopTimer_def split: prod.splits)

text \<open>A clock that counts its reads shows it at concrete values: stopped at the first
  read and started again at the second, the timer still holds the first read as its
  stop time, and both calls return the clock's code 0.\<close>

theorem StartTimer_StopTimer_frame_witness:
  "(case StopTimer (\<lambda>w tv. (0, \<lparr>tv_sec = word_of_nat w, tv_usec = 0\<rparr>, Suc w))
          \<lparr>start_tv = \<lparr>tv_sec = 7, tv_usec = 7\<rparr>, end_tv = \<lparr>tv_sec = 9, tv_usec = 9\<rparr>\<rparr> (1::nat) of
      (rc, t', w') \<Rightarrow>
        rc = 0 \<and> end_tv t' = \<lparr>tv_sec = 1, tv_usec = 0\<rparr>
        \<and> start_tv t' = \<lparr>tv_sec = 7, tv_usec = 7\<rparr>
        \<and> StartTimer (\<lambda>w tv. (0, \<lparr>tv_sec = word_of_nat w, tv_usec = 0\<rparr>, Suc w)) t' w'
            = (0, \<lparr>start_tv = \<lparr>tv_sec = 2, tv_usec = 0\<rparr>,
                   end_tv = \<lparr>tv_sec = 1, tv_usec = 0\<rparr>\<rparr>, 3))"
  using StartTimer_StopTimer_frame
    [of "\<lambda>w tv. (0, \<lparr>tv_sec = word_of_nat w, tv_usec = 0\<rparr>, Suc w)"
        "\<lparr>start_tv = \<lparr>tv_sec = 7, tv_usec = 7\<rparr>, end_tv = \<lparr>tv_sec = 9, tv_usec = 9\<rparr>\<rparr>" "1::nat"]
  by (simp add: StartTimer_def StopTimer_def)

end
